theory Spec2Isabelle
  imports Main
begin

section \<open>The document store\<close>

text \<open>
  The backend keeps users, news articles and videos in document collections and reaches
  them through an object-document mapper. A collection is a list of documents in
  insertion order; every document carries its \<open>_id\<close>. Only the operations the routes
  call are modelled:
  \<^item> \<open>findOne(filter)\<close> returns the first document matching the filter;
  \<^item> \<open>updateOne(filter, update)\<close> and \<open>findByIdAndUpdate\<close> rewrite the first matching
    document inside the store, without running any \<open>pre('save')\<close> hook;
  \<^item> \<open>doc.save()\<close> runs the schema's \<open>pre('save')\<close> hooks on the in-memory document and
    then writes its modified paths (for a new document: inserts it).
  Failures of the connection itself (the \<open>catch\<close> branches answering 500) are outside
  the model: every store operation completes.
\<close>

type_synonym objectid = nat

text \<open>Milliseconds since the epoch, the value of \<open>Date.now()\<close>. One handler invocation
  reads the clock once.\<close>
type_synonym time = nat

definition findOne :: "('d \<Rightarrow> bool) \<Rightarrow> 'd list \<Rightarrow> 'd option" where
  "findOne fltr db = find fltr db"

fun updateOne :: "('d \<Rightarrow> bool) \<Rightarrow> ('d \<Rightarrow> 'd) \<Rightarrow> 'd list \<Rightarrow> 'd list" where
  "updateOne fltr upd [] = []"
| "updateOne fltr upd (d # ds) = (if fltr d then upd d # ds else d # updateOne fltr upd ds)"

section \<open>Accounts (backend/models/User.js)\<close>

text \<open>The roles a request can carry. \<open>Guest\<close> is what the authentication middleware gives
  the bearer of a guest token; the schema's enumeration for stored users has the other
  three.\<close>
datatype role = User | Admin | Super_admin | Guest

datatype account_status = Active | Inactive | Suspended

text \<open>
  The fields of \<open>userSchema\<close> that the authentication routes read or write.
  \<open>loginAttempts\<close> has the schema default 0: a stored document in which the field was
  \<open>$unset\<close> is read back with 0, and \<open>$inc\<close> on it counts from 0, so the absent field and
  0 are one value here. \<open>password\<close> holds the stored hash.
\<close>
record user =
  user_id :: objectid
  name :: string
  email :: string
  password :: string
  phone :: "string option"
  role :: role
  status :: account_status
  phoneVerified :: bool
  lastLogin :: "time option"
  loginAttempts :: nat
  lockUntil :: "time option"
  lastActiveAt :: time

text \<open>\<open>userSchema.virtual('isLocked')\<close>: \<open>!!(this.lockUntil && this.lockUntil > Date.now())\<close>.\<close>
definition isLocked :: "user \<Rightarrow> time \<Rightarrow> bool" where
  "isLocked this now = (case lockUntil this of None \<Rightarrow> False | Some l \<Rightarrow> l > now)"

text \<open>\<open>String.prototype.toLowerCase\<close> on the ASCII letters.\<close>
definition toLowerCase :: "string \<Rightarrow> string" where
  "toLowerCase s =
     map (\<lambda>c. case map_of (zip ''ABCDEFGHIJKLMNOPQRSTUVWXYZ'' ''abcdefghijklmnopqrstuvwxyz'') c of
                 Some l \<Rightarrow> l | None \<Rightarrow> c) s"

text \<open>\<open>userSchema.statics.findByEmail\<close>.\<close>
definition findByEmail :: "user list \<Rightarrow> string \<Rightarrow> user option" where
  "findByEmail db e = findOne (\<lambda>d. email d = toLowerCase e) db"

text \<open>The filter \<open>{_id: this._id}\<close> of the document methods \<open>this.updateOne(...)\<close>.\<close>
definition by_id :: "user \<Rightarrow> user \<Rightarrow> bool" where
  "by_id this d = (user_id d = user_id this)"

text \<open>\<open>userSchema.methods.comparePassword\<close>; \<open>bcrypt_compare candidate hash\<close> stands for
  \<open>bcrypt.compare\<close>.\<close>
definition comparePassword :: "(string \<Rightarrow> string \<Rightarrow> bool) \<Rightarrow> user \<Rightarrow> string \<Rightarrow> bool" where
  "comparePassword bcrypt_compare this candidatePassword =
     (if password this = [] then False else bcrypt_compare candidatePassword (password this))"

definition maxAttempts :: nat where
  "maxAttempts = 5"

definition lockTime :: nat where
  "lockTime = 2 * 60 * 60 * 1000"

text \<open>
  \<open>userSchema.methods.incLoginAttempts\<close>. The conditions read the in-memory document
  \<open>this\<close>; \<open>$inc\<close>, \<open>$set\<close> and \<open>$unset\<close> act on the stored one.
\<close>
definition incLoginAttempts :: "user \<Rightarrow> time \<Rightarrow> user list \<Rightarrow> user list" where
  "incLoginAttempts this now db =
     (if (case lockUntil this of None \<Rightarrow> False | Some l \<Rightarrow> l < now) then
        updateOne (by_id this) (\<lambda>d. d\<lparr>lockUntil := None, loginAttempts := 1\<rparr>) db
      else if loginAttempts this + 1 \<ge> maxAttempts \<and> \<not> isLocked this now then
        updateOne (by_id this)
          (\<lambda>d. d\<lparr>loginAttempts := loginAttempts d + 1, lockUntil := Some (now + lockTime)\<rparr>) db
      else
        updateOne (by_id this) (\<lambda>d. d\<lparr>loginAttempts := loginAttempts d + 1\<rparr>) db)"

text \<open>\<open>userSchema.methods.resetLoginAttempts\<close>: \<open>$unset\<close> of both fields.\<close>
definition resetLoginAttempts :: "user \<Rightarrow> user list \<Rightarrow> user list" where
  "resetLoginAttempts this db =
     updateOne (by_id this) (\<lambda>d. d\<lparr>loginAttempts := 0, lockUntil := None\<rparr>) db"

text \<open>The paths of a user document that the routes assign before \<open>save()\<close>.\<close>
datatype user_path =
  P_password | P_phoneVerified | P_lastLogin | P_lastActiveAt | P_loginAttempts | P_lockUntil

definition write_path :: "user \<Rightarrow> user_path \<Rightarrow> user \<Rightarrow> user" where
  "write_path this p d =
     (case p of
        P_password \<Rightarrow> d\<lparr>password := password this\<rparr>
      | P_phoneVerified \<Rightarrow> d\<lparr>phoneVerified := phoneVerified this\<rparr>
      | P_lastLogin \<Rightarrow> d\<lparr>lastLogin := lastLogin this\<rparr>
      | P_lastActiveAt \<Rightarrow> d\<lparr>lastActiveAt := lastActiveAt this\<rparr>
      | P_loginAttempts \<Rightarrow> d\<lparr>loginAttempts := loginAttempts this\<rparr>
      | P_lockUntil \<Rightarrow> d\<lparr>lockUntil := lockUntil this\<rparr>)"

text \<open>
  \<open>save()\<close> of a user document that is already stored. The first \<open>pre('save')\<close> hook
  hashes the password when that path is modified (\<open>bcrypt_hash\<close> stands for
  \<open>bcrypt.genSalt\<close> and \<open>bcrypt.hash\<close>); the second one, when \<open>loginAttempts\<close> or
  \<open>lockUntil\<close> is modified and an earlier lock has expired, restarts the counter at 1 in
  the store. Then the modified paths are written.
\<close>
definition save_user ::
  "(string \<Rightarrow> string) \<Rightarrow> user_path list \<Rightarrow> time \<Rightarrow> user \<Rightarrow> user list \<Rightarrow> user list" where
  "save_user bcrypt_hash modified now this db =
     (let this1 = (if P_password \<in> set modified
                   then this\<lparr>password := bcrypt_hash (password this)\<rparr> else this);
          db1 = (if P_loginAttempts \<notin> set modified \<and> P_lockUntil \<notin> set modified then db
                 else if (case lockUntil this1 of None \<Rightarrow> False | Some l \<Rightarrow> l < now) then
                   updateOne (by_id this1) (\<lambda>d. d\<lparr>lockUntil := None, loginAttempts := 1\<rparr>) db
                 else db)
      in updateOne (by_id this1) (\<lambda>d. fold (write_path this1) modified d) db1)"

section \<open>Content items (the News and Video models)\<close>

datatype content_status = Published | Draft

text \<open>
  A news document. Of the two timestamps the mapper maintains, \<open>createdAt\<close> is kept (the
  routes order by it); \<open>updatedAt\<close> is not part of the model. The counters are schema
  \<open>Number\<close>s, that is IEEE doubles; the model holds the integer-valued ones, and
  \<open>number_add1\<close> below is their \<open>+ 1\<close>.
\<close>
record news =
  news_id :: objectid
  n_title :: string
  n_summary :: string
  n_content :: string
  n_category :: string
  n_imageUrl :: "string option"
  n_status :: content_status
  n_views :: nat
  n_shares :: nat
  n_tags :: "string list"
  n_author :: string
  n_featured :: bool
  n_publishedAt :: "time option"
  n_createdBy :: "objectid option"
  n_createdAt :: time

text \<open>A video document. An absent \<open>youtubeId\<close> is the empty string, which the hook's
  \<open>!this.youtubeId\<close> treats like \<open>undefined\<close>.\<close>
record video =
  video_id :: objectid
  v_title :: string
  v_description :: "string option"
  v_youtubeUrl :: string
  v_youtubeId :: string
  v_thumbnailUrl :: "string option"
  v_category :: string
  v_duration :: "string option"
  v_status :: content_status
  v_views :: nat
  v_shares :: nat
  v_likes :: nat
  v_tags :: "string list"
  v_featured :: bool
  v_publishedAt :: "time option"
  v_createdBy :: "objectid option"
  v_createdAt :: time

text \<open>
  \<open>req.body\<close> of the news routes. The first eight keys are the ones the request
  validators name, as their sanitizers leave them. The routes hand the whole body to the
  mapper, so the remaining schema paths can be sent as well and are stored: \<open>author\<close>,
  \<open>views\<close>, \<open>shares\<close>, \<open>publishedAt\<close>. (\<open>createdBy\<close> is overwritten by the route; \<open>_id\<close>,
  the version key and the timestamps stay with the mapper; a key that names no schema
  path is dropped by it.)
\<close>
record news_body =
  b_title :: string
  b_summary :: string
  b_content :: string
  b_category :: string
  b_imageUrl :: "string option"
  b_status :: "content_status option"
  b_tags :: "string list option"
  b_featured :: "bool option"
  b_author :: "string option"
  b_views :: "nat option"
  b_shares :: "nat option"
  b_publishedAt :: "time option"

text \<open>\<open>req.body\<close> of the video routes: the keys the request validators name, and the
  counters and \<open>publishedAt\<close>, which are stored when sent (a \<open>youtubeId\<close> in the body is
  overwritten by the route when it extracts one).\<close>
record video_body =
  vb_title :: string
  vb_description :: "string option"
  vb_youtubeUrl :: string
  vb_category :: string
  vb_thumbnailUrl :: "string option"
  vb_status :: "content_status option"
  vb_duration :: "string option"
  vb_tags :: "string list option"
  vb_featured :: "bool option"
  vb_views :: "nat option"
  vb_shares :: "nat option"
  vb_likes :: "nat option"
  vb_publishedAt :: "time option"

text \<open>\<open>req.user\<close> as the authentication middleware leaves it.\<close>
record req_user =
  ru_userId :: objectid
  ru_role :: role

text \<open>The \<open>pagination\<close> member of a list response.\<close>
record pagination =
  currentPage :: nat
  totalPages :: nat
  totalItems :: nat
  hasNextPage :: bool
  hasPrevPage :: bool
  page_limit :: nat

section \<open>Responses\<close>

text \<open>\<open>generateToken\<close>: the signed token carries the user id; signing and expiry belong
  to the token library.\<close>
datatype token = Token objectid

definition generateToken :: "objectid \<Rightarrow> token" where
  "generateToken userId = Token userId"

text \<open>The \<open>data\<close> member of the response envelope.\<close>
datatype payload =
    NoData
  | ValidationErrors "string list"
  | LoginData token objectid string string role account_status
  | PhoneLoginData token objectid string "string option" role account_status bool
  | SharesData nat
  | LikesData nat
  | ArticleData news
  | VideoData video
  | ArticleView news "news list"
  | ArticlePage "news list" pagination
  | VideoPage "video list" pagination

text \<open>The envelope \<open>{success, message, data, errors}\<close> with the HTTP status it is sent under.\<close>
record response =
  code :: nat
  success :: bool
  message :: string
  payload :: payload

definition failure :: "nat \<Rightarrow> string \<Rightarrow> response" where
  "failure c m = \<lparr>code = c, success = False, message = m, payload = NoData\<rparr>"

definition validation_failed :: "string list \<Rightarrow> response" where
  "validation_failed errors =
     \<lparr>code = 400, success = False, message = ''Validation failed'',
      payload = ValidationErrors errors\<rparr>"

definition ok :: "string \<Rightarrow> payload \<Rightarrow> response" where
  "ok m p = \<lparr>code = 200, success = True, message = m, payload = p\<rparr>"

definition created :: "string \<Rightarrow> payload \<Rightarrow> response" where
  "created m p = \<lparr>code = 201, success = True, message = m, payload = p\<rparr>"

section \<open>Authentication routes\<close>

text \<open>
  \<open>router.post('/login')\<close>. \<open>errors\<close> is \<open>validationResult(req)\<close>, the outcome of the
  request validators, which are the validation library's; \<open>email_in\<close> and \<open>password_in\<close>
  are the two body fields as the validators' sanitizers leave them. The handler returns
  the response and the store it leaves.
\<close>
definition login ::
  "(string \<Rightarrow> string \<Rightarrow> bool) \<Rightarrow> (string \<Rightarrow> string) \<Rightarrow> time \<Rightarrow> string list \<Rightarrow> string \<Rightarrow> string
     \<Rightarrow> user list \<Rightarrow> response \<times> user list" where
  "login bcrypt_compare bcrypt_hash now errors email_in password_in db =
     (if errors \<noteq> [] then (validation_failed errors, db)
      else case findByEmail db email_in of
        None \<Rightarrow> (failure 401 ''Invalid email or password'', db)
      | Some user \<Rightarrow>
          if isLocked user now then
            (failure 423 ''Account temporarily locked due to too many failed login attempts'', db)
          else if status user \<noteq> Active then
            (failure 403 ''Account is not active. Please contact support.'', db)
          else if \<not> comparePassword bcrypt_compare user password_in then
            (failure 401 ''Invalid email or password'', incLoginAttempts user now db)
          else
            let db1 = (if loginAttempts user > 0 then resetLoginAttempts user db else db);
                token = generateToken (user_id user);
                user1 = user\<lparr>lastLogin := Some now, lastActiveAt := now\<rparr>;
                db2 = save_user bcrypt_hash [P_lastLogin, P_lastActiveAt] now user1 db1
            in (ok ''Login successful''
                  (LoginData token (user_id user1) (name user1) (email user1) (role user1)
                     (status user1)),
                db2))"

text \<open>Whitespace as \<open>trim\<close> sees it, on the ASCII range.\<close>
definition is_space :: "char \<Rightarrow> bool" where
  "is_space c = (c \<in> set [CHR '' '', CHR 0x09, CHR 0x0A, CHR 0x0B, CHR 0x0C, CHR 0x0D])"

definition trim :: "string \<Rightarrow> string" where
  "trim s = rev (dropWhile is_space (rev (dropWhile is_space s)))"

text \<open>
  \<open>new User({...}); await user.save()\<close> for a document that is not stored yet.
  \<open>schema_valid\<close> stands for the mapper's validation of the document against the
  validators declared in \<open>userSchema\<close>; then the password hook hashes the password and the
  document is inserted, unless a unique index (\<open>_id\<close>, \<open>email\<close>) rejects it. \<open>None\<close> is the
  exception the handler answers with 500.
\<close>
definition insert_user ::
  "(string \<Rightarrow> string) \<Rightarrow> (user \<Rightarrow> bool) \<Rightarrow> user \<Rightarrow> user list \<Rightarrow> (user \<times> user list) option" where
  "insert_user bcrypt_hash schema_valid this db =
     (if \<not> schema_valid this then None
      else let this1 = this\<lparr>password := bcrypt_hash (password this)\<rparr>
           in if find (\<lambda>d. user_id d = user_id this1) db \<noteq> None then None
              else if find (\<lambda>d. email d = email this1) db \<noteq> None then None
              else Some (this1, db @ [this1]))"

definition validOTP :: string where
  "validOTP = ''1234''"

text \<open>
  \<open>router.post('/phone-login')\<close>. \<open>new_id\<close> is the identifier the driver gives a new
  document and \<open>random_password\<close> the value of
  \<open>Math.random().toString(36).slice(-8)\<close>. The schema setters (\<open>trim\<close>, \<open>lowercase\<close>)
  and defaults are applied to the new document.
\<close>
definition phone_login ::
  "(string \<Rightarrow> string) \<Rightarrow> (user \<Rightarrow> bool) \<Rightarrow> objectid \<Rightarrow> string \<Rightarrow> time \<Rightarrow> string list \<Rightarrow> string
     \<Rightarrow> string \<Rightarrow> user list \<Rightarrow> response \<times> user list" where
  "phone_login bcrypt_hash schema_valid new_id random_password now errors phone_in otp db =
     (if errors \<noteq> [] then (validation_failed errors, db)
      else if otp \<noteq> validOTP then (failure 401 ''Invalid OTP'', db)
      else
        case (case findOne (\<lambda>d. phone d = Some phone_in) db of
                Some found \<Rightarrow> Some (found, db)
              | None \<Rightarrow>
                  insert_user bcrypt_hash schema_valid
                    \<lparr>user_id = new_id,
                     name = trim (''User '' @ drop (length phone_in - 4) phone_in),
                     email = toLowerCase (trim (phone_in @ ''@temp.com'')),
                     password = random_password,
                     phone = Some (trim phone_in),
                     role = User,
                     status = Active,
                     phoneVerified = True,
                     lastLogin = None,
                     loginAttempts = 0,
                     lockUntil = None,
                     lastActiveAt = now\<rparr> db) of
          None \<Rightarrow> (failure 500 ''Server error during phone login'', db)
        | Some (user, db1) \<Rightarrow>
            if status user \<noteq> Active then
              (failure 403 ''Account is not active. Please contact support.'', db1)
            else
              let token = generateToken (user_id user);
                  user1 = user\<lparr>lastLogin := Some now, phoneVerified := True, lastActiveAt := now\<rparr>;
                  db2 = save_user bcrypt_hash [P_lastLogin, P_phoneVerified, P_lastActiveAt] now
                          user1 db1
              in (ok ''Phone login successful''
                    (PhoneLoginData token (user_id user1) (name user1) (phone user1) (role user1)
                       (status user1) (phoneVerified user1)),
                  db2))"

text \<open>A client sending one login request after another for the same email: the list
  holds the clock reading and the submitted password of each request, all of them
  passing the request validators.\<close>
fun login_seq ::
  "(string \<Rightarrow> string \<Rightarrow> bool) \<Rightarrow> (string \<Rightarrow> string) \<Rightarrow> string \<Rightarrow> (time \<times> string) list
     \<Rightarrow> user list \<Rightarrow> response list \<times> user list" where
  "login_seq bcrypt_compare bcrypt_hash e [] db = ([], db)"
| "login_seq bcrypt_compare bcrypt_hash e ((t, pw) # rest) db =
     (let (r, db1) = login bcrypt_compare bcrypt_hash t [] e pw db;
          (rs, db2) = login_seq bcrypt_compare bcrypt_hash e rest db1
      in (r # rs, db2))"

section \<open>Authorization middleware (backend/middleware/auth.js)\<close>

text \<open>\<open>adminMiddleware\<close>: \<open>Inl\<close> is the response it sends itself, \<open>Inr\<close> the \<open>req.user\<close> with
  which it calls \<open>next()\<close>.\<close>
definition adminMiddleware :: "req_user option \<Rightarrow> response + req_user" where
  "adminMiddleware ru =
     (case ru of
        None \<Rightarrow> Inl (failure 401 ''Authentication required.'')
      | Some u \<Rightarrow>
          if ru_role u \<in> set [Admin, Super_admin] then Inr u
          else Inl (failure 403 ''Access denied. Admin privileges required.''))"

section \<open>Content lifecycle hooks\<close>

text \<open>
  \<open>newsSchema.pre('save')\<close>. \<open>status_modified\<close> is \<open>this.isModified('status')\<close>: on a new
  document it holds when the constructor was given a status, on a stored one when the
  handler assigned the path.
\<close>
definition news_pre_save :: "bool \<Rightarrow> time \<Rightarrow> news \<Rightarrow> news" where
  "news_pre_save status_modified now this =
     (let this1 = (if status_modified \<and> n_status this = Published \<and> n_publishedAt this = None
                   then this\<lparr>n_publishedAt := Some now\<rparr> else this)
      in if status_modified \<and> n_status this1 = Draft
         then this1\<lparr>n_publishedAt := None\<rparr> else this1)"

text \<open>The character class \<open>[^&\n?#]\<close> and the group \<open>([^&\n?#]+)\<close> matched greedily at the
  head of a string.\<close>
definition id_char :: "char \<Rightarrow> bool" where
  "id_char c = (c \<notin> set [CHR ''&'', CHR 0x0A, CHR ''?'', CHR ''#''])"

definition capture :: "string \<Rightarrow> string option" where
  "capture s = (if takeWhile id_char s = [] then None else Some (takeWhile id_char s))"

text \<open>A literal followed by the group, anchored at the head of \<open>s\<close>.\<close>
definition lit_capture :: "string \<Rightarrow> string \<Rightarrow> string option" where
  "lit_capture lit s = (if take (length lit) s = lit then capture (drop (length lit) s) else None)"

text \<open>\<open>(?:youtube\.com\/watch\?v=|youtu\.be\/|youtube\.com\/embed\/)([^&\n?#]+)\<close> anchored
  at the head of \<open>s\<close>: the alternatives in their order.\<close>
definition pattern1_at :: "string \<Rightarrow> string option" where
  "pattern1_at s =
     (case lit_capture ''youtube.com/watch?v='' s of
        Some r \<Rightarrow> Some r
      | None \<Rightarrow>
          (case lit_capture ''youtu.be/'' s of
             Some r \<Rightarrow> Some r
           | None \<Rightarrow> lit_capture ''youtube.com/embed/'' s))"

text \<open>What \<open>.\<close> matches: every character but a line terminator.\<close>
definition dot_char :: "char \<Rightarrow> bool" where
  "dot_char c = (c \<notin> set [CHR 0x0A, CHR 0x0D])"

text \<open>\<open>youtube\.com\/watch\?.*v=([^&\n?#]+)\<close> anchored at the head of \<open>s\<close>: the greedy
  \<open>.*\<close> takes as much of the line as it can and gives back one character at a time.\<close>
definition pattern2_at :: "string \<Rightarrow> string option" where
  "pattern2_at s =
     (if take (length ''youtube.com/watch?'') s = ''youtube.com/watch?'' then
        (let rest = drop (length ''youtube.com/watch?'') s;
             n = length (takeWhile dot_char rest)
         in case find (\<lambda>k. lit_capture ''v='' (drop k rest) \<noteq> None) (rev [0..<Suc n]) of
              None \<Rightarrow> None
            | Some k \<Rightarrow> lit_capture ''v='' (drop k rest))
      else None)"

text \<open>\<open>String.prototype.match\<close> with a pattern that is not global: the leftmost position
  at which the pattern matches; the result is the first group.\<close>
fun regex_search :: "(string \<Rightarrow> string option) \<Rightarrow> string \<Rightarrow> string option" where
  "regex_search at [] = at []"
| "regex_search at (c # cs) =
     (case at (c # cs) of Some r \<Rightarrow> Some r | None \<Rightarrow> regex_search at cs)"

text \<open>\<open>extractYouTubeId\<close> of the video routes; the same two patterns are tried by the
  video schema's hook.\<close>
definition extractYouTubeId :: "string \<Rightarrow> string option" where
  "extractYouTubeId url =
     (case regex_search pattern1_at url of
        Some r \<Rightarrow> Some r
      | None \<Rightarrow> regex_search pattern2_at url)"

definition default_thumbnail :: "string \<Rightarrow> string" where
  "default_thumbnail yid = ''https://img.youtube.com/vi/'' @ yid @ ''/maxresdefault.jpg''"

text \<open>\<open>!this.thumbnailUrl\<close>: absent or empty.\<close>
definition falsy :: "string option \<Rightarrow> bool" where
  "falsy v = (case v of None \<Rightarrow> True | Some x \<Rightarrow> x = [])"

text \<open>\<open>videoSchema.pre('save')\<close>.\<close>
definition video_pre_save :: "bool \<Rightarrow> time \<Rightarrow> video \<Rightarrow> video" where
  "video_pre_save status_modified now this =
     (let this1 = (if v_youtubeUrl this \<noteq> [] \<and> v_youtubeId this = [] then
                     (case extractYouTubeId (v_youtubeUrl this) of
                        Some yid \<Rightarrow> this\<lparr>v_youtubeId := yid\<rparr>
                      | None \<Rightarrow> this)
                   else this);
          this2 = (if falsy (v_thumbnailUrl this1) \<and> v_youtubeId this1 \<noteq> []
                   then this1\<lparr>v_thumbnailUrl := Some (default_thumbnail (v_youtubeId this1))\<rparr>
                   else this1);
          this3 = (if status_modified \<and> v_status this2 = Published \<and> v_publishedAt this2 = None
                   then this2\<lparr>v_publishedAt := Some now\<rparr> else this2)
      in if status_modified \<and> v_status this3 = Draft
         then this3\<lparr>v_publishedAt := None\<rparr> else this3)"

section \<open>Saving content documents\<close>

text \<open>
  \<open>save()\<close> of a new document: the mapper validates it against the schema
  (\<open>schema_valid\<close>), runs the hook and inserts it; the unique indexes (\<open>_id\<close>, and
  \<open>youtubeId\<close> for videos) reject a duplicate. \<open>None\<close> is the exception, answered 500.
\<close>
definition insert_news ::
  "(news \<Rightarrow> bool) \<Rightarrow> bool \<Rightarrow> time \<Rightarrow> news \<Rightarrow> news list \<Rightarrow> (news \<times> news list) option" where
  "insert_news schema_valid status_modified now this db =
     (if \<not> schema_valid this then None
      else let this1 = news_pre_save status_modified now this
           in if find (\<lambda>d. news_id d = news_id this1) db \<noteq> None then None
              else Some (this1, db @ [this1]))"

definition insert_video ::
  "(video \<Rightarrow> bool) \<Rightarrow> bool \<Rightarrow> time \<Rightarrow> video \<Rightarrow> video list \<Rightarrow> (video \<times> video list) option" where
  "insert_video schema_valid status_modified now this db =
     (if \<not> schema_valid this then None
      else let this1 = video_pre_save status_modified now this
           in if find (\<lambda>d. video_id d = video_id this1) db \<noteq> None then None
              else if find (\<lambda>d. v_youtubeId d = v_youtubeId this1) db \<noteq> None then None
              else Some (this1, db @ [this1]))"

text \<open>
  \<open>x + 1\<close> on a \<open>Number\<close> that holds a non-negative integer. Below \<open>2^53 =
  9007199254740992\<close> the sum is exact. From there on the doubles are 2 apart (4 and more
  from \<open>2^54 = 18014398509481984\<close>), and the sum is rounded to the nearest of them, a tie
  going to the one with the even significand. Only integers that a double can hold
  occur as the argument.
\<close>
definition number_add1 :: "nat \<Rightarrow> nat" where
  "number_add1 n =
     (if n < 9007199254740992 then n + 1
      else if n < 18014398509481984 then (if even (n div 2) then n else n + 2)
      else n)"

text \<open>
  \<open>save()\<close> of a stored document after \<open>incrementShares\<close> or \<open>incrementLikes\<close>. The mapper
  first validates the in-memory document (\<open>schema_valid\<close>); a failure is the exception
  \<open>None\<close>, which the handlers answer with 500. The only path the handler assigned is the
  counter, so \<open>isModified('status')\<close> is false in the hook; the counter is written with
  \<open>$set\<close>, and so is a path the hook itself filled in.
\<close>
definition save_news_shares ::
  "(news \<Rightarrow> bool) \<Rightarrow> time \<Rightarrow> news \<Rightarrow> news list \<Rightarrow> news list option" where
  "save_news_shares schema_valid now this db =
     (if \<not> schema_valid this then None
      else let this1 = news_pre_save False now this
           in Some (updateOne (\<lambda>d. news_id d = news_id this1)
                      (\<lambda>d. d\<lparr>n_shares := n_shares this1\<rparr>) db))"




section \<open>News routes\<close>

text \<open>\<open>new News({...req.body, createdBy: req.user.userId})\<close> with the schema defaults.\<close>
definition new_news :: "objectid \<Rightarrow> time \<Rightarrow> news_body \<Rightarrow> objectid \<Rightarrow> news" where
  "new_news new_id now body creator =
     \<lparr>news_id = new_id,
      n_title = b_title body,
      n_summary = b_summary body,
      n_content = b_content body,
      n_category = b_category body,
      n_imageUrl = b_imageUrl body,
      n_status = (case b_status body of None \<Rightarrow> Draft | Some st \<Rightarrow> st),
      n_views = (case b_views body of None \<Rightarrow> 0 | Some n \<Rightarrow> n),
      n_shares = (case b_shares body of None \<Rightarrow> 0 | Some n \<Rightarrow> n),
      n_tags = (case b_tags body of None \<Rightarrow> [] | Some ts \<Rightarrow> ts),
      n_author = (case b_author body of None \<Rightarrow> ''Admin'' | Some a \<Rightarrow> a),
      n_featured = (case b_featured body of None \<Rightarrow> False | Some f \<Rightarrow> f),
      n_publishedAt = b_publishedAt body,
      n_createdBy = Some creator,
      n_createdAt = now\<rparr>"

text \<open>\<open>router.post('/')\<close> of the news routes, from \<open>adminMiddleware\<close> on.\<close>
definition create_news ::
  "(news \<Rightarrow> bool) \<Rightarrow> objectid \<Rightarrow> time \<Rightarrow> req_user option \<Rightarrow> string list \<Rightarrow> news_body
     \<Rightarrow> news list \<Rightarrow> response \<times> news list" where
  "create_news schema_valid new_id now ru errors body db =
     (case adminMiddleware ru of
        Inl r \<Rightarrow> (r, db)
      | Inr u \<Rightarrow>
          if errors \<noteq> [] then (validation_failed errors, db)
          else
            (case insert_news schema_valid (b_status body \<noteq> None) now
                    (new_news new_id now body (ru_userId u)) db of
               None \<Rightarrow> (failure 500 ''Failed to create article'', db)
             | Some (article, db1) \<Rightarrow>
                 (created ''Article created successfully'' (ArticleData article), db1)))"

text \<open>The update document \<open>req.body\<close> applied to a stored article: every key present is
  set, nothing else is touched.\<close>
definition apply_news_body :: "news_body \<Rightarrow> news \<Rightarrow> news" where
  "apply_news_body body d =
     d\<lparr>n_title := b_title body,
       n_summary := b_summary body,
       n_content := b_content body,
       n_category := b_category body,
       n_imageUrl := (case b_imageUrl body of None \<Rightarrow> n_imageUrl d | Some x \<Rightarrow> Some x),
       n_status := (case b_status body of None \<Rightarrow> n_status d | Some st \<Rightarrow> st),
       n_tags := (case b_tags body of None \<Rightarrow> n_tags d | Some ts \<Rightarrow> ts),
       n_featured := (case b_featured body of None \<Rightarrow> n_featured d | Some f \<Rightarrow> f),
       n_author := (case b_author body of None \<Rightarrow> n_author d | Some a \<Rightarrow> a),
       n_views := (case b_views body of None \<Rightarrow> n_views d | Some n \<Rightarrow> n),
       n_shares := (case b_shares body of None \<Rightarrow> n_shares d | Some n \<Rightarrow> n),
       n_publishedAt := (case b_publishedAt body of None \<Rightarrow> n_publishedAt d | Some t \<Rightarrow> Some t)\<rparr>"

text \<open>
  \<open>router.put('/:id')\<close> of the news routes: \<open>News.findByIdAndUpdate(id, req.body,
  {new: true, runValidators: true})\<close>. \<open>ident\<close> is the object id the path parameter casts
  to, and \<open>update_valid\<close> stands for the update validators; the update goes to the store
  directly and no \<open>pre('save')\<close> hook runs.
\<close>
definition update_news ::
  "(news_body \<Rightarrow> bool) \<Rightarrow> req_user option \<Rightarrow> string list \<Rightarrow> objectid \<Rightarrow> news_body
     \<Rightarrow> news list \<Rightarrow> response \<times> news list" where
  "update_news update_valid ru errors ident body db =
     (case adminMiddleware ru of
        Inl r \<Rightarrow> (r, db)
      | Inr u \<Rightarrow>
          if errors \<noteq> [] then (validation_failed errors, db)
          else if \<not> update_valid body then (failure 500 ''Failed to update article'', db)
          else
            (case findOne (\<lambda>d. news_id d = ident) db of
               None \<Rightarrow> (failure 404 ''Article not found'', db)
             | Some article \<Rightarrow>
                 (ok ''Article updated successfully''
                    (ArticleData (apply_news_body body article)),
                  updateOne (\<lambda>d. news_id d = ident) (apply_news_body body) db)))"

text \<open>
  \<open>router.post('/:id/share')\<close> of the news routes, with \<open>incrementShares\<close> inlined:
  \<open>this.shares += 1; return this.save()\<close>. \<open>id_param\<close> is \<open>req.params.id\<close>, the text in the
  path; the route mounts no validator. \<open>castObjectId\<close> stands for the mapper's cast of
  that text to an object id inside \<open>findById\<close>: \<open>None\<close> is its \<open>CastError\<close>. The exceptions
  of the cast and of \<open>save()\<close> end in the \<open>catch\<close> branch, which answers 500.
\<close>
definition share_news ::
  "(string \<Rightarrow> objectid option) \<Rightarrow> (news \<Rightarrow> bool) \<Rightarrow> time \<Rightarrow> string \<Rightarrow> news list
     \<Rightarrow> response \<times> news list" where
  "share_news castObjectId schema_valid now id_param db =
     (case castObjectId id_param of
        None \<Rightarrow> (failure 500 ''Failed to update share count'', db)
      | Some ident \<Rightarrow>
          (case findOne (\<lambda>d. news_id d = ident) db of
             None \<Rightarrow> (failure 404 ''Article not found'', db)
           | Some article \<Rightarrow>
               if n_status article \<noteq> Published then
                 (failure 403 ''Cannot share unpublished article'', db)
               else
                 let article1 = article\<lparr>n_shares := number_add1 (n_shares article)\<rparr>
                 in (case save_news_shares schema_valid now article1 db of
                       None \<Rightarrow> (failure 500 ''Failed to update share count'', db)
                     | Some db1 \<Rightarrow>
                         (ok ''Share count updated'' (SharesData (n_shares article1)), db1))))"

text \<open>
  \<open>router.get('/:id')\<close> of the news routes, for the object id the path parameter casts
  to. The view counter is raised inside the store by \<open>$inc\<close>. The related articles are returned whole (the \<open>select\<close> projection is not
  modelled).
\<close>
definition get_news ::
  "req_user option \<Rightarrow> string option \<Rightarrow> objectid \<Rightarrow> news list \<Rightarrow> response \<times> news list" where
  "get_news ru increment_view_param ident db =
     (let increment_view = (case increment_view_param of None \<Rightarrow> ''true'' | Some v \<Rightarrow> v)
      in case findOne (\<lambda>d. news_id d = ident) db of
           None \<Rightarrow> (failure 404 ''Article not found'', db)
         | Some article \<Rightarrow>
             if n_status article = Draft
                \<and> (case ru of None \<Rightarrow> True | Some u \<Rightarrow> ru_role u \<noteq> Admin) then
               (failure 403 ''Access denied'', db)
             else
               let counted = (increment_view = ''true'' \<and> n_status article = Published);
                   db1 = (if counted
                          then updateOne (\<lambda>d. news_id d = ident)
                                 (\<lambda>d. d\<lparr>n_views := n_views d + 1\<rparr>) db
                          else db);
                   article1 = (if counted then article\<lparr>n_views := n_views article + 1\<rparr>
                               else article);
                   related = take 5 (rev (sort_key n_createdAt
                               (filter (\<lambda>d. news_id d \<noteq> ident
                                          \<and> n_category d = n_category article
                                          \<and> n_status d = Published) db1)))
               in (\<lparr>code = 200, success = True, message = [],
                    payload = ArticleView article1 related\<rparr>, db1))"

section \<open>Video routes\<close>

text \<open>\<open>new Video({...req.body, youtubeId, createdBy: req.user.userId})\<close> with the schema
  defaults.\<close>
definition new_video :: "objectid \<Rightarrow> time \<Rightarrow> video_body \<Rightarrow> string \<Rightarrow> objectid \<Rightarrow> video" where
  "new_video new_id now body youtubeId creator =
     \<lparr>video_id = new_id,
      v_title = vb_title body,
      v_description = vb_description body,
      v_youtubeUrl = vb_youtubeUrl body,
      v_youtubeId = youtubeId,
      v_thumbnailUrl = vb_thumbnailUrl body,
      v_category = vb_category body,
      v_duration = vb_duration body,
      v_status = (case vb_status body of None \<Rightarrow> Draft | Some st \<Rightarrow> st),
      v_views = (case vb_views body of None \<Rightarrow> 0 | Some n \<Rightarrow> n),
      v_shares = (case vb_shares body of None \<Rightarrow> 0 | Some n \<Rightarrow> n),
      v_likes = (case vb_likes body of None \<Rightarrow> 0 | Some n \<Rightarrow> n),
      v_tags = (case vb_tags body of None \<Rightarrow> [] | Some ts \<Rightarrow> ts),
      v_featured = (case vb_featured body of None \<Rightarrow> False | Some f \<Rightarrow> f),
      v_publishedAt = vb_publishedAt body,
      v_createdBy = Some creator,
      v_createdAt = now\<rparr>"

text \<open>\<open>router.post('/')\<close> of the video routes, from \<open>adminMiddleware\<close> on.\<close>
definition create_video ::
  "(video \<Rightarrow> bool) \<Rightarrow> objectid \<Rightarrow> time \<Rightarrow> req_user option \<Rightarrow> string list \<Rightarrow> video_body
     \<Rightarrow> video list \<Rightarrow> response \<times> video list" where
  "create_video schema_valid new_id now ru errors body db =
     (case adminMiddleware ru of
        Inl r \<Rightarrow> (r, db)
      | Inr u \<Rightarrow>
          if errors \<noteq> [] then (validation_failed errors, db)
          else
            (case extractYouTubeId (vb_youtubeUrl body) of
               None \<Rightarrow> (failure 400 ''Invalid YouTube URL'', db)
             | Some youtubeId \<Rightarrow>
                 (case findOne (\<lambda>d. v_youtubeId d = youtubeId) db of
                    Some existingVideo \<Rightarrow>
                      (failure 400 ''Video with this YouTube ID already exists'', db)
                  | None \<Rightarrow>
                      (case insert_video schema_valid (vb_status body \<noteq> None) now
                              (new_video new_id now body youtubeId (ru_userId u)) db of
                         None \<Rightarrow> (failure 500 ''Failed to create video'', db)
                       | Some (vid, db1) \<Rightarrow>
                           (created ''Video created successfully'' (VideoData vid), db1)))))"

definition apply_video_body :: "video_body \<Rightarrow> string option \<Rightarrow> video \<Rightarrow> video" where
  "apply_video_body body new_youtubeId d =
     d\<lparr>v_title := vb_title body,
       v_description := (case vb_description body of None \<Rightarrow> v_description d | Some x \<Rightarrow> Some x),
       v_youtubeUrl := vb_youtubeUrl body,
       v_youtubeId := (case new_youtubeId of None \<Rightarrow> v_youtubeId d | Some y \<Rightarrow> y),
       v_thumbnailUrl := (case vb_thumbnailUrl body of None \<Rightarrow> v_thumbnailUrl d | Some x \<Rightarrow> Some x),
       v_category := vb_category body,
       v_duration := (case vb_duration body of None \<Rightarrow> v_duration d | Some x \<Rightarrow> Some x),
       v_status := (case vb_status body of None \<Rightarrow> v_status d | Some st \<Rightarrow> st),
       v_tags := (case vb_tags body of None \<Rightarrow> v_tags d | Some ts \<Rightarrow> ts),
       v_featured := (case vb_featured body of None \<Rightarrow> v_featured d | Some f \<Rightarrow> f),
       v_views := (case vb_views body of None \<Rightarrow> v_views d | Some n \<Rightarrow> n),
       v_shares := (case vb_shares body of None \<Rightarrow> v_shares d | Some n \<Rightarrow> n),
       v_likes := (case vb_likes body of None \<Rightarrow> v_likes d | Some n \<Rightarrow> n),
       v_publishedAt := (case vb_publishedAt body of
                           None \<Rightarrow> v_publishedAt d | Some t \<Rightarrow> Some t)\<rparr>"

text \<open>
  \<open>router.put('/:id')\<close> of the video routes. As for news the update bypasses the hook;
  the unique index on \<open>youtubeId\<close> rejects an identifier another video holds.
\<close>
definition update_video ::
  "(video_body \<Rightarrow> bool) \<Rightarrow> req_user option \<Rightarrow> string list \<Rightarrow> objectid \<Rightarrow> video_body
     \<Rightarrow> video list \<Rightarrow> response \<times> video list" where
  "update_video update_valid ru errors ident body db =
     (case adminMiddleware ru of
        Inl r \<Rightarrow> (r, db)
      | Inr u \<Rightarrow>
          if errors \<noteq> [] then (validation_failed errors, db)
          else if vb_youtubeUrl body \<noteq> [] \<and> extractYouTubeId (vb_youtubeUrl body) = None then
            (failure 400 ''Invalid YouTube URL'', db)
          else
            let new_youtubeId = (if vb_youtubeUrl body \<noteq> []
                                 then extractYouTubeId (vb_youtubeUrl body) else None)
            in if \<not> update_valid body then (failure 500 ''Failed to update video'', db)
               else
                 (case findOne (\<lambda>d. video_id d = ident) db of
                    None \<Rightarrow> (failure 404 ''Video not found'', db)
                  | Some vid \<Rightarrow>
                      if find (\<lambda>d. video_id d \<noteq> ident
                                 \<and> v_youtubeId d
                                     = v_youtubeId (apply_video_body body new_youtubeId vid))
                           db \<noteq> None
                      then (failure 500 ''Failed to update video'', db)
                      else
                        (ok ''Video updated successfully''
                           (VideoData (apply_video_body body new_youtubeId vid)),
                         updateOne (\<lambda>d. video_id d = ident)
                           (apply_video_body body new_youtubeId) db)))"



section \<open>Listing content\<close>

text \<open>\<open>req.query\<close> of \<open>GET /api/news\<close> and \<open>GET /api/videos\<close>; \<open>page\<close> and \<open>limit\<close> are the
  integers \<open>parseInt\<close> reads.\<close>
record list_params =
  lp_page :: "nat option"
  lp_limit :: "nat option"
  lp_category :: "string option"
  lp_status :: "content_status option"
  lp_search :: "string option"
  lp_featured :: "string option"
  lp_sort :: "string option"
  lp_order :: "string option"

text \<open>The filter object \<open>query\<close> handed to \<open>find\<close> and \<open>countDocuments\<close>.\<close>
record content_query =
  q_status :: "content_status option"
  q_category :: "string option"
  q_featured :: "bool option"
  q_text :: "string option"

text \<open>
  The block under \<open>// Build query\<close>, the same text in both routes. The requested status
  defaults to \<open>'published'\<close> and is always a non-empty string, so \<open>else if (status)\<close> is
  taken whenever the first test fails.
\<close>
definition build_query :: "req_user option \<Rightarrow> list_params \<Rightarrow> content_query" where
  "build_query ru p =
     (let status_param = (case lp_status p of None \<Rightarrow> Published | Some st \<Rightarrow> st)
      in \<lparr>q_status = (if (case ru of None \<Rightarrow> True | Some u \<Rightarrow> ru_role u \<noteq> Admin)
                       then Some Published else Some status_param),
          q_category = (case lp_category p of
                          None \<Rightarrow> None | Some c \<Rightarrow> if c = [] then None else Some c),
          q_featured = (case lp_featured p of None \<Rightarrow> None | Some f \<Rightarrow> Some (f = ''true'')),
          q_text = (case lp_search p of
                      None \<Rightarrow> None | Some t \<Rightarrow> if t = [] then None else Some t)\<rparr>)"

text \<open>Whether a document matches the filter; \<open>text_search\<close> stands for the store's
  \<open>$text\<close> operator.\<close>
definition news_matches :: "(string \<Rightarrow> news \<Rightarrow> bool) \<Rightarrow> content_query \<Rightarrow> news \<Rightarrow> bool" where
  "news_matches text_search q d =
     ((case q_status q of None \<Rightarrow> True | Some st \<Rightarrow> n_status d = st)
      \<and> (case q_category q of None \<Rightarrow> True | Some c \<Rightarrow> n_category d = c)
      \<and> (case q_featured q of None \<Rightarrow> True | Some f \<Rightarrow> n_featured d = f)
      \<and> (case q_text q of None \<Rightarrow> True | Some t \<Rightarrow> text_search t d))"

definition video_matches :: "(string \<Rightarrow> video \<Rightarrow> bool) \<Rightarrow> content_query \<Rightarrow> video \<Rightarrow> bool" where
  "video_matches text_search q d =
     ((case q_status q of None \<Rightarrow> True | Some st \<Rightarrow> v_status d = st)
      \<and> (case q_category q of None \<Rightarrow> True | Some c \<Rightarrow> v_category d = c)
      \<and> (case q_featured q of None \<Rightarrow> True | Some f \<Rightarrow> v_featured d = f)
      \<and> (case q_text q of None \<Rightarrow> True | Some t \<Rightarrow> text_search t d))"

text \<open>The \<open>page\<close> and \<open>limit\<close> validators of \<open>validateQuery\<close>.\<close>
definition page_limit_errors :: "list_params \<Rightarrow> string list" where
  "page_limit_errors p =
     (case lp_page p of
        None \<Rightarrow> []
      | Some n \<Rightarrow> if 1 \<le> n then [] else [''Page must be a positive integer''])
     @ (case lp_limit p of
          None \<Rightarrow> []
        | Some n \<Rightarrow> if 1 \<le> n \<and> n \<le> 100 then [] else [''Limit must be between 1 and 100''])"

text \<open>\<open>find(query).sort(sortObj).skip(skip).limit(limit)\<close>; \<open>field_key\<close> gives the store's
  ordering of the documents under the named field.\<close>
definition find_page ::
  "('d \<Rightarrow> int) \<Rightarrow> string \<Rightarrow> nat \<Rightarrow> nat \<Rightarrow> 'd list \<Rightarrow> 'd list" where
  "find_page key order skip lim matching =
     take lim (drop skip (if order = ''desc'' then rev (sort_key key matching)
                          else sort_key key matching))"

definition page_info :: "nat \<Rightarrow> nat \<Rightarrow> nat \<Rightarrow> pagination" where
  "page_info page lim matched =
     (let pages = (matched + lim - 1) div lim
      in \<lparr>currentPage = page, totalPages = pages, totalItems = matched,
          hasNextPage = (page < pages), hasPrevPage = (page > 1), page_limit = lim\<rparr>)"

text \<open>\<open>router.get('/')\<close> of the news routes. \<open>errors\<close> holds what the remaining validators
  of \<open>validateQuery\<close> report.\<close>
definition list_news ::
  "(string \<Rightarrow> news \<Rightarrow> bool) \<Rightarrow> (string \<Rightarrow> news \<Rightarrow> int) \<Rightarrow> req_user option \<Rightarrow> string list
     \<Rightarrow> list_params \<Rightarrow> news list \<Rightarrow> response" where
  "list_news text_search field_key ru errors p db =
     (if page_limit_errors p @ errors \<noteq> [] then validation_failed (page_limit_errors p @ errors)
      else
        let page = (case lp_page p of None \<Rightarrow> 1 | Some n \<Rightarrow> n);
            lim = (case lp_limit p of None \<Rightarrow> 10 | Some n \<Rightarrow> n);
            sort_field = (case lp_sort p of None \<Rightarrow> ''createdAt'' | Some f \<Rightarrow> f);
            order = (case lp_order p of None \<Rightarrow> ''desc'' | Some ord \<Rightarrow> ord);
            matching = filter (news_matches text_search (build_query ru p)) db;
            articles = find_page (field_key sort_field) order ((page - 1) * lim) lim matching;
            matched = length matching
        in \<lparr>code = 200, success = True, message = [],
            payload = ArticlePage articles (page_info page lim matched)\<rparr>)"

text \<open>\<open>router.get('/')\<close> of the video routes.\<close>
definition list_videos ::
  "(string \<Rightarrow> video \<Rightarrow> bool) \<Rightarrow> (string \<Rightarrow> video \<Rightarrow> int) \<Rightarrow> req_user option \<Rightarrow> string list
     \<Rightarrow> list_params \<Rightarrow> video list \<Rightarrow> response" where
  "list_videos text_search field_key ru errors p db =
     (if page_limit_errors p @ errors \<noteq> [] then validation_failed (page_limit_errors p @ errors)
      else
        let page = (case lp_page p of None \<Rightarrow> 1 | Some n \<Rightarrow> n);
            lim = (case lp_limit p of None \<Rightarrow> 10 | Some n \<Rightarrow> n);
            sort_field = (case lp_sort p of None \<Rightarrow> ''createdAt'' | Some f \<Rightarrow> f);
            order = (case lp_order p of None \<Rightarrow> ''desc'' | Some ord \<Rightarrow> ord);
            matching = filter (video_matches text_search (build_query ru p)) db;
            videos = find_page (field_key sort_field) order ((page - 1) * lim) lim matching;
            matched = length matching
        in \<lparr>code = 200, success = True, message = [],
            payload = VideoPage videos (page_info page lim matched)\<rparr>)"

section \<open>Requests in flight\<close>

text \<open>
  A handler awaits each store operation, and other requests may run between two of its
  operations. A share request is therefore two store operations apart: \<open>findById\<close>, and
  the \<open>save()\<close> that writes the counter computed from the document read before. A view
  is also two operations, \<open>findById\<close> and the \<open>$inc\<close> that the store applies to the
  counter it holds. A task is what is left of a request.
\<close>
datatype task =
    Find_for_share objectid
  | Save_shares news
  | Find_for_view objectid
  | Inc_views news
  | Sent response

text \<open>The next store operation of a task, with the handler's code up to the following
  \<open>await\<close>. A task starts with the object id that the cast of the path parameter gave.
  The view request is the anonymous one with \<open>increment_view\<close> left at its default.\<close>
definition step :: "(news \<Rightarrow> bool) \<Rightarrow> time \<Rightarrow> task \<Rightarrow> news list \<Rightarrow> task \<times> news list" where
  "step schema_valid now t db =
     (case t of
        Find_for_share ident \<Rightarrow>
          (case findOne (\<lambda>d. news_id d = ident) db of
             None \<Rightarrow> (Sent (failure 404 ''Article not found''), db)
           | Some article \<Rightarrow>
               if n_status article \<noteq> Published
               then (Sent (failure 403 ''Cannot share unpublished article''), db)
               else (Save_shares article, db))
      | Save_shares article \<Rightarrow>
          (let article1 = article\<lparr>n_shares := number_add1 (n_shares article)\<rparr>
           in case save_news_shares schema_valid now article1 db of
                None \<Rightarrow> (Sent (failure 500 ''Failed to update share count''), db)
              | Some db1 \<Rightarrow>
                  (Sent (ok ''Share count updated'' (SharesData (n_shares article1))), db1))
      | Find_for_view ident \<Rightarrow>
          (case findOne (\<lambda>d. news_id d = ident) db of
             None \<Rightarrow> (Sent (failure 404 ''Article not found''), db)
           | Some article \<Rightarrow>
               if n_status article = Draft then (Sent (failure 403 ''Access denied''), db)
               else (Inc_views article, db))
      | Inc_views article \<Rightarrow>
          (let db1 = updateOne (\<lambda>d. news_id d = news_id article)
                       (\<lambda>d. d\<lparr>n_views := n_views d + 1\<rparr>) db;
               article1 = article\<lparr>n_views := n_views article + 1\<rparr>;
               related = take 5 (rev (sort_key n_createdAt
                           (filter (\<lambda>d. news_id d \<noteq> news_id article
                                      \<and> n_category d = n_category article
                                      \<and> n_status d = Published) db1)))
           in (Sent \<lparr>code = 200, success = True, message = [],
                     payload = ArticleView article1 related\<rparr>, db1))
      | Sent r \<Rightarrow> (Sent r, db))"

text \<open>A schedule names, one after the other, the request whose next operation the store
  serves.\<close>
fun run ::
  "(news \<Rightarrow> bool) \<Rightarrow> time \<Rightarrow> nat list \<Rightarrow> task list \<Rightarrow> news list \<Rightarrow> task list \<times> news list" where
  "run schema_valid now [] ts db = (ts, db)"
| "run schema_valid now (i # schedule) ts db =
     (if i < length ts
      then (let (t, db1) = step schema_valid now (ts ! i) db
            in run schema_valid now schedule (ts[i := t]) db1)
      else run schema_valid now schedule ts db)"

section \<open>Example stores\<close>

text \<open>Concrete accounts and requests on which the theorems below are run.\<close>

definition example_user :: user where
  "example_user =
     \<lparr>user_id = 1, name = ''A'', email = ''a@x.com'', password = ''secret1'',
      phone = Some ''+14155552670'', role = User, status = Active, phoneVerified = False,
      lastLogin = None, loginAttempts = 0, lockUntil = None, lastActiveAt = 0\<rparr>"

definition five_wrong :: "(time \<times> string) list" where
  "five_wrong = [(1000, ''wrong''), (2000, ''wrong''), (3000, ''wrong''), (4000, ''wrong''),
                 (5000, ''wrong'')]"

definition locked_user :: user where
  "locked_user =
     \<lparr>user_id = 2, name = ''B'', email = ''b@x.com'', password = ''secret2'',
      phone = Some ''+14155552671'', role = User, status = Active, phoneVerified = False,
      lastLogin = None, loginAttempts = 5, lockUntil = Some 7205000, lastActiveAt = 0\<rparr>"

definition struck_user :: user where
  "struck_user =
     \<lparr>user_id = 3, name = ''C'', email = ''c@x.com'', password = ''secret3'',
      phone = Some ''+14155552672'', role = User, status = Active, phoneVerified = False,
      lastLogin = None, loginAttempts = 3, lockUntil = None, lastActiveAt = 0\<rparr>"

definition example_users :: "user list" where
  "example_users = [example_user, locked_user, struck_user]"

definition draft_article :: news where
  "draft_article =
     \<lparr>news_id = 7, n_title = ''Title'', n_summary = ''Summary of it'',
      n_content = ''Content of the article, at least fifty characters long.'',
      n_category = ''Sports'', n_imageUrl = None, n_status = Draft, n_views = 0, n_shares = 0,
      n_tags = [], n_author = ''Admin'', n_featured = False, n_publishedAt = None,
      n_createdBy = Some 1, n_createdAt = 500\<rparr>"

definition published_article :: news where
  "published_article =
     \<lparr>news_id = 8, n_title = ''Other'', n_summary = ''Summary of it'',
      n_content = ''Content of the article, at least fifty characters long.'',
      n_category = ''Sports'', n_imageUrl = None, n_status = Published, n_views = 0,
      n_shares = 0, n_tags = [], n_author = ''Admin'', n_featured = False,
      n_publishedAt = Some 600, n_createdBy = Some 1, n_createdAt = 600\<rparr>"

definition article_body :: "content_status option \<Rightarrow> news_body" where
  "article_body st =
     \<lparr>b_title = ''Title'', b_summary = ''Summary of it'',
      b_content = ''Content of the article, at least fifty characters long.'',
      b_category = ''Sports'', b_imageUrl = None, b_status = st, b_tags = None,
      b_featured = None, b_author = None, b_views = None, b_shares = None,
      b_publishedAt = None\<rparr>"

definition an_admin :: req_user where
  "an_admin = \<lparr>ru_userId = 1, ru_role = Admin\<rparr>"

definition a_super_admin :: req_user where
  "a_super_admin = \<lparr>ru_userId = 4, ru_role = Super_admin\<rparr>"

definition drafts_wanted :: list_params where
  "drafts_wanted =
     \<lparr>lp_page = None, lp_limit = None, lp_category = None, lp_status = Some Draft,
      lp_search = None, lp_featured = None, lp_sort = None, lp_order = None\<rparr>"

definition example_video :: video where
  "example_video =
     \<lparr>video_id = 11, v_title = ''A video'', v_description = None,
      v_youtubeUrl = ''https://www.youtube.com/watch?v=dQw4w9WgXcQ'',
      v_youtubeId = ''dQw4w9WgXcQ'',
      v_thumbnailUrl = Some ''https://img.youtube.com/vi/dQw4w9WgXcQ/maxresdefault.jpg'',
      v_category = ''News'', v_duration = None, v_status = Published, v_views = 0,
      v_shares = 0, v_likes = 0, v_tags = [], v_featured = False, v_publishedAt = Some 700,
      v_createdBy = Some 1, v_createdAt = 700\<rparr>"

definition draft_video :: video where
  "draft_video =
     \<lparr>video_id = 12, v_title = ''Unreleased'', v_description = None,
      v_youtubeUrl = ''https://youtu.be/aaaaaaaaaaa'', v_youtubeId = ''aaaaaaaaaaa'',
      v_thumbnailUrl = Some ''https://img.youtube.com/vi/aaaaaaaaaaa/maxresdefault.jpg'',
      v_category = ''News'', v_duration = None, v_status = Draft, v_views = 0,
      v_shares = 0, v_likes = 0, v_tags = [], v_featured = False, v_publishedAt = None,
      v_createdBy = Some 1, v_createdAt = 800\<rparr>"

definition same_video_body :: video_body where
  "same_video_body =
     \<lparr>vb_title = ''Another title'', vb_description = None,
      vb_youtubeUrl = ''https://youtu.be/dQw4w9WgXcQ'', vb_category = ''Interview'',
      vb_thumbnailUrl = None, vb_status = None, vb_duration = None, vb_tags = None,
      vb_featured = None, vb_views = None, vb_shares = None, vb_likes = None,
      vb_publishedAt = None\<rparr>"

definition unreleased_body :: "content_status option \<Rightarrow> video_body" where
  "unreleased_body st =
     \<lparr>vb_title = ''Unreleased'', vb_description = None,
      vb_youtubeUrl = ''https://youtu.be/aaaaaaaaaaa'', vb_category = ''News'',
      vb_thumbnailUrl = None, vb_status = st, vb_duration = None, vb_tags = None,
      vb_featured = None, vb_views = None, vb_shares = None, vb_likes = None,
      vb_publishedAt = None\<rparr>"

definition example_news :: "news list" where
  "example_news = [draft_article, published_article]"

definition example_videos :: "video list" where
  "example_videos = [example_video, draft_video]"

text \<open>Stand-ins for the library functions on the examples: validators that accept
  every document, a text search that matches every document, and the ordering by
  creation time.\<close>
definition accepting :: "'a \<Rightarrow> bool" where
  "accepting d = True"

definition any_text :: "string \<Rightarrow> 'a \<Rightarrow> bool" where
  "any_text t d = True"

definition news_key :: "string \<Rightarrow> news \<Rightarrow> int" where
  "news_key field d = int (n_createdAt d)"

definition video_key :: "string \<Rightarrow> video \<Rightarrow> int" where
  "video_key field d = int (v_createdAt d)"



text \<open>An article whose share counter has reached \<open>2^53\<close>, as \<open>POST /api/news\<close> stores it
  when the body carries \<open>shares\<close>.\<close>
definition saturated_article :: news where
  "saturated_article =
     \<lparr>news_id = 9, n_title = ''Title'', n_summary = ''Summary of it'',
      n_content = ''Content of the article, at least fifty characters long.'',
      n_category = ''Sports'', n_imageUrl = None, n_status = Published, n_views = 0,
      n_shares = 9007199254740992, n_tags = [], n_author = ''Admin'', n_featured = False,
      n_publishedAt = Some 1000, n_createdBy = Some 1, n_createdAt = 1000\<rparr>"

definition saturated_body :: news_body where
  "saturated_body =
     \<lparr>b_title = ''Title'', b_summary = ''Summary of it'',
      b_content = ''Content of the article, at least fifty characters long.'',
      b_category = ''Sports'', b_imageUrl = None, b_status = Some Published, b_tags = None,
      b_featured = None, b_author = None, b_views = None, b_shares = Some 9007199254740992,
      b_publishedAt = None\<rparr>"

section \<open>Store lemmas\<close>

lemma updateOne_ids:
  "(\<And>d. user_id (upd d) = user_id d) \<Longrightarrow> map user_id (updateOne fltr upd db) = map user_id db"
  by (induction db) auto

lemma findOne_updateOne:
  assumes "distinct (map user_id db)" and "findOne q db = Some u"
    and "\<And>d. q (upd d) = q d"
  shows "findOne q (updateOne (by_id u) upd db) = Some (upd u)"
  using assms(1,2)
proof (induction db)
  case Nil
  then show ?case by (simp add: findOne_def)
next
  case (Cons d ds)
  show ?case
  proof (cases "q d")
    case True
    with Cons.prems have "u = d" by (simp add: findOne_def)
    with True assms(3) show ?thesis by (simp add: findOne_def by_id_def)
  next
    case False
    with Cons.prems have f: "findOne q ds = Some u" by (simp add: findOne_def)
    then have "u \<in> set ds" by (auto simp: findOne_def find_Some_iff)
    with Cons.prems(1) have "user_id d \<noteq> user_id u" by auto
    with False Cons f assms(3) show ?thesis by (simp add: findOne_def by_id_def)
  qed
qed

lemma findByEmail_updateOne:
  assumes "distinct (map user_id db)" and "findByEmail db e = Some u"
    and "\<And>d. email (upd d) = email d"
  shows "findByEmail (updateOne (by_id u) upd db) e = Some (upd u)"
  using assms unfolding findByEmail_def by (intro findOne_updateOne) auto

section \<open>Lockout\<close>

lemma login_wrong_password:
  assumes "findByEmail db e = Some u" and "\<not> isLocked u t" and "status u = Active"
    and "\<not> comparePassword cmp u pw"
  shows "login cmp h t [] e pw db =
           (failure 401 ''Invalid email or password'', incLoginAttempts u t db)"
  using assms by (simp add: login_def)

lemma login_locked:
  assumes "findByEmail db e = Some u" and "isLocked u t"
  shows "login cmp h t [] e pw db =
           (failure 423 ''Account temporarily locked due to too many failed login attempts'', db)"
  using assms by (simp add: login_def)

lemma failed_attempt:
  assumes "distinct (map user_id db)" and "findByEmail db e = Some u"
    and "lockUntil u = None" and "status u = Active" and "\<not> comparePassword cmp u pw"
  shows "fst (login cmp h t [] e pw db) = failure 401 ''Invalid email or password''"
    and "distinct (map user_id (snd (login cmp h t [] e pw db)))"
    and "findByEmail (snd (login cmp h t [] e pw db)) e =
           Some (u\<lparr>loginAttempts := loginAttempts u + 1,
                   lockUntil := (if loginAttempts u + 1 \<ge> maxAttempts
                                 then Some (t + lockTime) else None)\<rparr>)"
proof -
  have nl: "\<not> isLocked u t" using assms(3) by (simp add: isLocked_def)
  have l: "login cmp h t [] e pw db =
           (failure 401 ''Invalid email or password'', incLoginAttempts u t db)"
    using login_wrong_password[OF assms(2) nl assms(4,5)] .
  show "fst (login cmp h t [] e pw db) = failure 401 ''Invalid email or password''"
    by (simp add: l)
  show "distinct (map user_id (snd (login cmp h t [] e pw db)))"
    using assms(1) by (simp add: l incLoginAttempts_def updateOne_ids)
  show "findByEmail (snd (login cmp h t [] e pw db)) e =
           Some (u\<lparr>loginAttempts := loginAttempts u + 1,
                   lockUntil := (if loginAttempts u + 1 \<ge> maxAttempts
                                 then Some (t + lockTime) else None)\<rparr>)"
    using assms(3) nl
    by (simp add: l incLoginAttempts_def findByEmail_updateOne[OF assms(1,2)])
qed

lemma failed_attempts_seq:
  assumes "distinct (map user_id db)" and "findByEmail db e = Some u"
    and "lockUntil u = None" and "status u = Active"
    and "\<forall>a\<in>set attempts. \<not> comparePassword cmp u (snd a)"
    and "loginAttempts u < maxAttempts" and "loginAttempts u + length attempts \<le> maxAttempts"
  shows "fst (login_seq cmp h e attempts db) =
           replicate (length attempts) (failure 401 ''Invalid email or password'')
         \<and> distinct (map user_id (snd (login_seq cmp h e attempts db)))
         \<and> findByEmail (snd (login_seq cmp h e attempts db)) e =
             Some (u\<lparr>loginAttempts := loginAttempts u + length attempts,
                     lockUntil := (if loginAttempts u + length attempts \<ge> maxAttempts
                                   then Some (fst (last attempts) + lockTime) else None)\<rparr>)"
  using assms
proof (induction attempts arbitrary: db u)
  case Nil
  then show ?case by simp
next
  case (Cons a rest)
  obtain t pw where a: "a = (t, pw)" by (cases a)
  let ?db1 = "snd (login cmp h t [] e pw db)"
  let ?u1 = "u\<lparr>loginAttempts := loginAttempts u + 1,
                lockUntil := (if loginAttempts u + 1 \<ge> maxAttempts
                              then Some (t + lockTime) else None)\<rparr>"
  have w: "\<not> comparePassword cmp u pw" using Cons.prems(5) a by simp
  note step = failed_attempt[OF Cons.prems(1,2,3,4) w, of h t]
  have unfold: "login_seq cmp h e (a # rest) db =
      (fst (login cmp h t [] e pw db) # fst (login_seq cmp h e rest ?db1),
       snd (login_seq cmp h e rest ?db1))"
    by (simp add: a split_beta Let_def)
  show ?case
  proof (cases rest)
    case Nil
    with step show ?thesis by (simp add: a split_beta)
  next
    case (Cons b rest')
    with Cons.prems(7) have small: "loginAttempts u + 1 < maxAttempts" by simp
    have ih: "fst (login_seq cmp h e rest ?db1) =
           replicate (length rest) (failure 401 ''Invalid email or password'')
         \<and> distinct (map user_id (snd (login_seq cmp h e rest ?db1)))
         \<and> findByEmail (snd (login_seq cmp h e rest ?db1)) e =
             Some (?u1\<lparr>loginAttempts := loginAttempts ?u1 + length rest,
                     lockUntil := (if loginAttempts ?u1 + length rest \<ge> maxAttempts
                                   then Some (fst (last rest) + lockTime) else None)\<rparr>)"
    proof (rule Cons.IH)
      show "distinct (map user_id ?db1)" by (rule step(2))
      show "findByEmail ?db1 e = Some ?u1" by (rule step(3))
      show "lockUntil ?u1 = None" using small by simp
      show "status ?u1 = Active" using Cons.prems(4) by simp
      show "\<forall>a\<in>set rest. \<not> comparePassword cmp ?u1 (snd a)"
        using Cons.prems(5) by (auto simp: comparePassword_def)
      show "loginAttempts ?u1 < maxAttempts" using small by simp
      show "loginAttempts ?u1 + length rest \<le> maxAttempts" using Cons.prems(7) by simp
    qed
    show ?thesis using ih step(1) Cons by (simp add: a split_beta add.assoc)
  qed
qed


lemma example_find: "findByEmail [example_user] ''a@x.com'' = Some example_user"
  by (simp add: findByEmail_def findOne_def example_user_def toLowerCase_def)


text \<open>
  Claim C7. A login request for an account whose \<open>lockUntil\<close> lies in the future is
  answered 423, unless the request validators have already answered it with 400, and
  either way the store is returned unchanged: neither the counter nor \<open>lockUntil\<close> is
  written. The outcome is the same for every submitted password and every comparison
  function, so the secret is not consulted.
\<close>
theorem locked_login_is_rejected:
  assumes "findByEmail db e = Some u" and "lockUntil u = Some l" and "now < l"
  shows "login bcrypt_compare bcrypt_hash now errors e pw db =
           (if errors \<noteq> [] then validation_failed errors
            else failure 423
                   ''Account temporarily locked due to too many failed login attempts'',
            db)"
  using assms by (simp add: login_def isLocked_def)

lemma find_locked: "findByEmail example_users ''b@x.com'' = Some locked_user"
  by (simp add: findByEmail_def findOne_def example_users_def example_user_def locked_user_def
      toLowerCase_def)

theorem locked_login_is_rejected_witness:
  "login (=) id 6000 [] ''b@x.com'' ''secret2'' example_users =
     (failure 423 ''Account temporarily locked due to too many failed login attempts'',
      example_users)"
proof -
  have "lockUntil locked_user = Some 7205000" by (simp add: locked_user_def)
  moreover have "(6000::nat) < 7205000" by simp
  ultimately show ?thesis
    using locked_login_is_rejected[OF find_locked, of 7205000 6000 "(=)" id "[]" "''secret2''"]
    by simp
qed

text \<open>
  Claim C10. A phone-login request that passes the request validators and carries the
  valid OTP, whose phone number resolves to a stored active account with \<open>lockUntil\<close>
  in the future, is answered 200 with a token issued for that account: the lock is
  never looked at.
\<close>
theorem phone_login_skips_lock:
  assumes "findOne (\<lambda>d. phone d = Some p) db = Some u" and "status u = Active"
    and "lockUntil u = Some l" and "now < l"
  shows "fst (phone_login bcrypt_hash schema_valid new_id random_password now [] p validOTP db) =
           ok ''Phone login successful''
             (PhoneLoginData (generateToken (user_id u)) (user_id u) (name u) (phone u) (role u)
                Active True)"
  using assms by (simp add: phone_login_def Let_def)

lemma find_locked_phone:
  "findOne (\<lambda>d. phone d = Some ''+14155552671'') example_users = Some locked_user"
  by (simp add: findOne_def example_users_def example_user_def locked_user_def)

theorem phone_login_skips_lock_witness:
  "fst (phone_login id accepting 9 ''x7k2m9qa'' 6000 [] ''+14155552671'' ''1234'' example_users) =
     ok ''Phone login successful''
       (PhoneLoginData (Token 2) 2 ''B'' (Some ''+14155552671'') User Active True)"
proof -
  have s: "status locked_user = Active" and l: "lockUntil locked_user = Some 7205000"
    by (simp_all add: locked_user_def)
  have t: "(6000::nat) < 7205000" by simp
  from phone_login_skips_lock[OF find_locked_phone s l t, of id accepting 9 "''x7k2m9qa''"]
  show ?thesis by (simp add: validOTP_def generateToken_def locked_user_def)
qed

text \<open>
  Claim C3 on the phone path. An active account with three recorded failures logs in
  with its phone number and the valid OTP. The request is answered 200, and the stored
  failed-login counter is still 3: the route has no counterpart of the password route's
  ``Reset login attempts on successful login''.
\<close>
theorem phone_login_keeps_counter:
  "code (fst (phone_login id accepting 9 ''x7k2m9qa'' 6000 [] ''+14155552672'' ''1234''
            example_users)) = 200
   \<and> map_option loginAttempts
       (findByEmail (snd (phone_login id accepting 9 ''x7k2m9qa'' 6000 [] ''+14155552672'' ''1234''
                            example_users)) ''c@x.com'') = Some 3"
  by (simp add: phone_login_def validOTP_def example_users_def example_user_def locked_user_def
      struck_user_def findOne_def findByEmail_def toLowerCase_def save_user_def by_id_def
      write_path_def ok_def Let_def)

lemma by_id_cong: "user_id a = user_id b \<Longrightarrow> by_id a = by_id b"
  by (simp add: by_id_def fun_eq_iff)

lemma save_user_login:
  "save_user h [P_lastLogin, P_lastActiveAt] now this db =
     updateOne (by_id this)
       (\<lambda>d. d\<lparr>lastLogin := lastLogin this, lastActiveAt := lastActiveAt this\<rparr>) db"
  by (simp add: save_user_def write_path_def)

text \<open>The password route does reset: every email/password login that is answered 200
  leaves the account's stored failed-login counter at 0, whatever it was before.\<close>
lemma password_login_resets_counter:
  assumes "distinct (map user_id db)" and "findByEmail db e = Some u"
    and "code (fst (login bcrypt_compare bcrypt_hash now errors e pw db)) = 200"
  shows "map_option loginAttempts
           (findByEmail (snd (login bcrypt_compare bcrypt_hash now errors e pw db)) e) = Some 0"
proof -
  have e: "errors = []"
    using assms(3) by (auto simp: login_def validation_failed_def split: if_splits)
  have g: "\<not> isLocked u now \<and> status u = Active \<and> comparePassword bcrypt_compare u pw"
    using assms(2,3) by (auto simp: login_def e failure_def split: if_splits)
  let ?u1 = "u\<lparr>lastLogin := Some now, lastActiveAt := now\<rparr>"
  show ?thesis
  proof (cases "loginAttempts u > 0")
    case True
    let ?r = "u\<lparr>loginAttempts := 0, lockUntil := None\<rparr>"
    let ?db1 = "resetLoginAttempts u db"
    have d1: "distinct (map user_id ?db1)"
      using assms(1) by (simp add: resetLoginAttempts_def updateOne_ids)
    have f1: "findByEmail ?db1 e = Some ?r"
      using findByEmail_updateOne[OF assms(1,2)] by (simp add: resetLoginAttempts_def)
    have b: "by_id ?u1 = by_id ?r" by (rule by_id_cong) simp
    have "findByEmail (save_user bcrypt_hash [P_lastLogin, P_lastActiveAt] now ?u1 ?db1) e =
            Some (?r\<lparr>lastLogin := lastLogin ?u1, lastActiveAt := lastActiveAt ?u1\<rparr>)"
      unfolding save_user_login b by (rule findByEmail_updateOne[OF d1 f1]) simp
    then show ?thesis
      using True g assms(2) by (simp add: login_def e Let_def)
  next
    case False
    have b: "by_id ?u1 = by_id u" by (rule by_id_cong) simp
    have "findByEmail (save_user bcrypt_hash [P_lastLogin, P_lastActiveAt] now ?u1 db) e =
            Some (u\<lparr>lastLogin := lastLogin ?u1, lastActiveAt := lastActiveAt ?u1\<rparr>)"
      unfolding save_user_login b by (rule findByEmail_updateOne[OF assms(1,2)]) simp
    then show ?thesis
      using False g assms(2) by (simp add: login_def e Let_def)
  qed
qed

lemma find_struck: "findByEmail example_users ''c@x.com'' = Some struck_user"
  by (simp add: findByEmail_def findOne_def example_users_def example_user_def locked_user_def
      struck_user_def toLowerCase_def)

lemma distinct_example_users: "distinct (map user_id example_users)"
  by (simp add: example_users_def example_user_def locked_user_def struck_user_def)

lemma password_login_resets_counter_example:
  "map_option loginAttempts (findByEmail example_users ''c@x.com'') = Some 3
   \<and> map_option loginAttempts
       (findByEmail (snd (login (=) id 6000 [] ''c@x.com'' ''secret3'' example_users)) ''c@x.com'')
       = Some 0"
proof -
  have c: "code (fst (login (=) id 6000 [] ''c@x.com'' ''secret3'' example_users)) = 200"
    by (simp add: login_def find_struck isLocked_def comparePassword_def struck_user_def
        ok_def Let_def)
  from password_login_resets_counter[OF distinct_example_users find_struck c]
  show ?thesis by (simp add: find_struck struck_user_def)
qed

text \<open>
  Claim C8 fails on the fifth response: from counter 0 and no lock, the fifth wrong
  password is answered 401, not 423.
\<close>
theorem fifth_failure_is_not_locked_counterexample:
  "code (fst (login_seq (=) id ''a@x.com'' five_wrong [example_user]) ! 4) = 401
   \<and> code (fst (login_seq (=) id ''a@x.com'' five_wrong [example_user]) ! 4) \<noteq> 423"
proof -
  have h1: "distinct (map user_id [example_user])" by simp
  have h3: "status example_user = Active" and h4: "loginAttempts example_user < maxAttempts"
    and h5: "lockUntil example_user = None"
    and h6: "loginAttempts example_user + length five_wrong \<le> maxAttempts"
    by (simp_all add: example_user_def five_wrong_def maxAttempts_def)
  have h7: "\<forall>a\<in>set five_wrong. \<not> comparePassword (=) example_user (snd a)"
    by (simp add: five_wrong_def comparePassword_def example_user_def)
  from failed_attempts_seq[OF h1 example_find h5 h3 h7 h4 h6, of id]
  have "fst (login_seq (=) id ''a@x.com'' five_wrong [example_user]) =
          replicate (length five_wrong) (failure 401 ''Invalid email or password'')"
    by simp
  then show ?thesis by (simp add: five_wrong_def failure_def)
qed

text \<open>
  Claim C8, amended. Starting from an active account with counter 0 and no lock, five
  consecutive wrong passwords are each answered 401; the fifth one sets the lock, and a
  following login with the correct password is answered 423 as long as the clock is
  below the fifth request's time plus 2 hours.
\<close>
theorem fifth_failure_sets_lock:
  assumes "distinct (map user_id db)" and "findByEmail db e = Some u"
    and "status u = Active" and "loginAttempts u = 0" and "lockUntil u = None"
    and "length attempts = 5"
    and "\<forall>a\<in>set attempts. \<not> comparePassword cmp u (snd a)"
    and "comparePassword cmp u pw" and "t6 < fst (last attempts) + 7200000"
  shows "map code (fst (login_seq cmp h e attempts db)) = [401, 401, 401, 401, 401]
         \<and> code (fst (login cmp h t6 [] e pw (snd (login_seq cmp h e attempts db)))) = 423"
proof -
  let ?db5 = "snd (login_seq cmp h e attempts db)"
  have a: "loginAttempts u < maxAttempts" "loginAttempts u + length attempts \<le> maxAttempts"
    using assms(4,6) by (simp_all add: maxAttempts_def)
  note seq = failed_attempts_seq[OF assms(1,2,5,3,7) a, of h]
  have r: "map code (fst (login_seq cmp h e attempts db)) = [401, 401, 401, 401, 401]"
    using seq assms(6) by (simp add: failure_def numeral_eq_Suc)
  have "findByEmail ?db5 e =
          Some (u\<lparr>loginAttempts := 5, lockUntil := Some (fst (last attempts) + lockTime)\<rparr>)"
    using seq assms(4,6) by (simp add: maxAttempts_def)
  then have "code (fst (login cmp h t6 [] e pw ?db5)) = 423"
    using assms(9) by (simp add: login_def isLocked_def lockTime_def failure_def)
  with r show ?thesis by simp
qed

theorem fifth_failure_sets_lock_witness:
  "map code (fst (login_seq (=) id ''a@x.com'' five_wrong [example_user]))
     = [401, 401, 401, 401, 401]
   \<and> code (fst (login (=) id 5001 [] ''a@x.com'' ''secret1''
              (snd (login_seq (=) id ''a@x.com'' five_wrong [example_user])))) = 423"
proof -
  have h1: "distinct (map user_id [example_user])" by simp
  have h3: "status example_user = Active" and h4: "loginAttempts example_user = 0"
    and h5: "lockUntil example_user = None" and h6: "length five_wrong = 5"
    by (simp_all add: example_user_def five_wrong_def)
  have h7: "\<forall>a\<in>set five_wrong. \<not> comparePassword (=) example_user (snd a)"
    by (simp add: five_wrong_def comparePassword_def example_user_def)
  have c: "comparePassword (=) example_user ''secret1''"
    by (simp add: comparePassword_def example_user_def)
  have t: "(5001::nat) < fst (last five_wrong) + 7200000" by (simp add: five_wrong_def)
  show ?thesis
    by (rule fifth_failure_sets_lock[OF h1 example_find h3 h4 h5 h6 h7 c t])
qed

section \<open>Content lifecycle and engagement\<close>

lemma findOne_holds: "findOne q db = Some a \<Longrightarrow> q a"
  by (auto simp: findOne_def find_Some_iff)

lemma findOne_updateOne_same:
  "findOne q db = Some a \<Longrightarrow> q (upd a) \<Longrightarrow> findOne q (updateOne q upd db) = Some (upd a)"
  by (induction db) (auto simp: findOne_def split: if_splits)

lemma news_pre_save_unmodified: "news_pre_save False now this = this"
  by (simp add: news_pre_save_def)

lemma news_pre_save_invariant:
  "(n_publishedAt (news_pre_save True now this) \<noteq> None)
     = (n_status (news_pre_save True now this) = Published)"
  by (cases "n_status this") (auto simp: news_pre_save_def Let_def)



lemma number_add1_exact: "n < 9007199254740992 \<Longrightarrow> number_add1 n = n + 1"
  by (simp add: number_add1_def)






text \<open>The counter value \<open>2^53\<close> is one the routes can store: \<open>POST /api/news\<close> passes the
  \<open>shares\<close> key of the body on to the new document.\<close>
lemma saturated_article_created:
  "create_news accepting 9 1000 (Some an_admin) [] saturated_body []
     = (created ''Article created successfully'' (ArticleData saturated_article),
        [saturated_article])"
  by (simp add: create_news_def adminMiddleware_def an_admin_def insert_news_def
      accepting_def new_news_def news_pre_save_def saturated_body_def saturated_article_def
      Let_def)








text \<open>
  Claim C5. When the identifier extracted from the submitted video URL is the
  \<open>youtubeId\<close> of a stored video, \<open>POST /api/videos\<close> stores nothing, whatever the other
  body fields are. Its answer is the rejection of \<open>adminMiddleware\<close> if the caller is
  not an admin, the validation failure if the request validators report errors, and
  otherwise 400 ``Video with this YouTube ID already exists''.
\<close>
theorem duplicate_video_is_rejected:
  assumes "extractYouTubeId (vb_youtubeUrl body) = Some yid"
    and "yid \<in> set (map v_youtubeId db)"
  shows "snd (create_video schema_valid new_id now ru errors body db) = db
         \<and> fst (create_video schema_valid new_id now ru errors body db) =
             (case adminMiddleware ru of
                Inl r \<Rightarrow> r
              | Inr u \<Rightarrow>
                  if errors \<noteq> [] then validation_failed errors
                  else failure 400 ''Video with this YouTube ID already exists'')"
proof -
  from assms(2) have "find (\<lambda>d. v_youtubeId d = yid) db \<noteq> None"
    by (auto simp: find_None_iff)
  then obtain existing where "findOne (\<lambda>d. v_youtubeId d = yid) db = Some existing"
    by (auto simp: findOne_def)
  with assms(1) show ?thesis
    by (simp add: create_video_def split: sum.splits)
qed

lemma extract_short_link: "extractYouTubeId ''https://youtu.be/dQw4w9WgXcQ'' = Some ''dQw4w9WgXcQ''"
  by (simp add: extractYouTubeId_def pattern1_at_def lit_capture_def capture_def id_char_def)

theorem duplicate_video_is_rejected_witness:
  "create_video accepting 13 1000 (Some an_admin) [] same_video_body example_videos
     = (failure 400 ''Video with this YouTube ID already exists'', example_videos)"
proof -
  have u: "extractYouTubeId (vb_youtubeUrl same_video_body) = Some ''dQw4w9WgXcQ''"
    by (simp add: same_video_body_def extract_short_link)
  have m: "''dQw4w9WgXcQ'' \<in> set (map v_youtubeId example_videos)"
    by (simp add: example_videos_def example_video_def)
  have a: "adminMiddleware (Some an_admin) = Inr an_admin"
    by (simp add: adminMiddleware_def an_admin_def)
  from duplicate_video_is_rejected[OF u m, of accepting 13 1000 "Some an_admin" "[]"]
  show ?thesis by (simp add: a prod_eq_iff)
qed

section \<open>Status transitions on the update path\<close>

text \<open>On creation the hook runs: when the body names a status, or sends no
  \<open>publishedAt\<close> of its own, the article that \<open>POST /api/news\<close> stores has a publish
  timestamp exactly when its status is \<open>published\<close>.\<close>
lemma created_article_timestamp:
  assumes "create_news schema_valid new_id now ru errors body db = (r, db1)"
    and "code r = 201" and "b_status body \<noteq> None \<or> b_publishedAt body = None"
  shows "\<exists>article. db1 = db @ [article]
           \<and> n_status article = (case b_status body of None \<Rightarrow> Draft | Some st \<Rightarrow> st)
           \<and> (n_publishedAt article \<noteq> None) = (n_status article = Published)"
proof (cases "adminMiddleware ru")
  case (Inl rej)
  then have "code rej \<noteq> 201"
    by (cases ru) (auto simp: adminMiddleware_def failure_def split: if_splits)
  with assms(1,2) Inl show ?thesis by (simp add: create_news_def)
next
  case (Inr u)
  let ?new = "new_news new_id now body (ru_userId u)"
  let ?saved = "news_pre_save (b_status body \<noteq> None) now ?new"
  have e: "errors = []"
    using assms(1,2) Inr by (auto simp: create_news_def validation_failed_def split: if_splits)
  have ins: "insert_news schema_valid (b_status body \<noteq> None) now ?new db
               = Some (?saved, db1)"
    using assms(1,2) Inr e
    by (auto simp: create_news_def insert_news_def failure_def created_def Let_def
        split: option.splits if_splits)
  then have db1: "db1 = db @ [?saved]"
    by (auto simp: insert_news_def Let_def split: if_splits)
  have st: "n_status ?saved = (case b_status body of None \<Rightarrow> Draft | Some st \<Rightarrow> st)"
    by (simp add: news_pre_save_def new_news_def Let_def)
  have inv: "(n_publishedAt ?saved \<noteq> None) = (n_status ?saved = Published)"
  proof (cases "b_status body")
    case None
    with assms(3) show ?thesis by (simp add: news_pre_save_def new_news_def)
  next
    case (Some s)
    then show ?thesis
      by (cases s; cases "b_publishedAt body")
         (simp_all add: news_pre_save_def new_news_def Let_def)
  qed
  from db1 st inv show ?thesis by blast
qed

text \<open>
  Claim C1 on the update path. \<open>PUT /api/news/7\<close> with status \<open>published\<close> on a draft
  stores the status and leaves \<open>publishedAt\<close> absent; an article created as published at
  time 1000 and then updated to \<open>draft\<close> keeps \<open>publishedAt = 1000\<close>; the video route
  does the same.
\<close>
theorem update_bypasses_publish_hook:
  "map n_status (snd (update_news accepting (Some an_admin) [] 7
                        (article_body (Some Published)) [draft_article])) = [Published]
   \<and> map n_publishedAt (snd (update_news accepting (Some an_admin) [] 7
                               (article_body (Some Published)) [draft_article])) = [None]
   \<and> map n_status
       (snd (update_news accepting (Some an_admin) [] 9 (article_body (Some Draft))
               (snd (create_news accepting 9 1000 (Some an_admin) []
                       (article_body (Some Published)) [])))) = [Draft]
   \<and> map n_publishedAt
       (snd (update_news accepting (Some an_admin) [] 9 (article_body (Some Draft))
               (snd (create_news accepting 9 1000 (Some an_admin) []
                       (article_body (Some Published)) [])))) = [Some 1000]
   \<and> map v_status (snd (update_video accepting (Some an_admin) [] 12
                          (unreleased_body (Some Published)) [draft_video])) = [Published]
   \<and> map v_publishedAt (snd (update_video accepting (Some an_admin) [] 12
                               (unreleased_body (Some Published)) [draft_video])) = [None]"
proof -
  have x: "extractYouTubeId ''https://youtu.be/aaaaaaaaaaa'' = Some ''aaaaaaaaaaa''"
    by (simp add: extractYouTubeId_def pattern1_at_def lit_capture_def capture_def id_char_def)
  have a: "adminMiddleware (Some an_admin) = Inr an_admin"
    by (simp add: adminMiddleware_def an_admin_def)
  have i: "ru_userId an_admin = 1" by (simp add: an_admin_def)
  have 1: "snd (update_news accepting (Some an_admin) [] 7
                  (article_body (Some Published)) [draft_article])
             = [draft_article\<lparr>n_status := Published\<rparr>]"
    by (simp add: update_news_def a findOne_def draft_article_def article_body_def
        apply_news_body_def accepting_def)
  have 2: "snd (create_news accepting 9 1000 (Some an_admin) []
                  (article_body (Some Published)) [])
             = [(new_news 9 1000 (article_body (Some Published)) 1)
                  \<lparr>n_publishedAt := Some 1000\<rparr>]"
    by (simp add: create_news_def a insert_news_def news_pre_save_def new_news_def
        article_body_def i accepting_def Let_def)
  have 3: "snd (update_news accepting (Some an_admin) [] 9 (article_body (Some Draft))
                  [(new_news 9 1000 (article_body (Some Published)) 1)
                     \<lparr>n_publishedAt := Some 1000\<rparr>])
             = [(new_news 9 1000 (article_body (Some Published)) 1)
                  \<lparr>n_publishedAt := Some 1000, n_status := Draft\<rparr>]"
    by (simp add: update_news_def a findOne_def new_news_def article_body_def
        apply_news_body_def accepting_def)
  have 4: "snd (update_video accepting (Some an_admin) [] 12
                  (unreleased_body (Some Published)) [draft_video])
             = [draft_video\<lparr>v_status := Published\<rparr>]"
    by (simp add: update_video_def a findOne_def draft_video_def unreleased_body_def
        apply_video_body_def x accepting_def Let_def)
  show ?thesis
    unfolding 1 2 3 4 by (simp add: draft_article_def draft_video_def)
qed

section \<open>The status filter of the list routes\<close>

lemma build_query_forced:
  "(case ru of None \<Rightarrow> True | Some u \<Rightarrow> ru_role u \<noteq> Admin)
     \<Longrightarrow> q_status (build_query ru p) = Some Published"
  by (simp add: build_query_def)

lemma build_query_admin:
  "ru_role u = Admin \<Longrightarrow>
     q_status (build_query (Some u) p) = Some (case lp_status p of None \<Rightarrow> Published | Some st \<Rightarrow> st)"
  by (simp add: build_query_def)

lemma set_find_page: "set (find_page key order skip lim xs) \<subseteq> set xs"
proof -
  have "set (find_page key order skip lim xs)
          \<subseteq> set (if order = ''desc'' then rev (sort_key key xs) else sort_key key xs)"
    unfolding find_page_def by (meson set_drop_subset set_take_subset subset_trans)
  then show ?thesis by (simp split: if_splits)
qed

text \<open>What both list routes do for the public: a caller that is anonymous, a guest or
  a plain user gets published articles only, and the total counts published articles
  only, whatever status the query asks for.\<close>
lemma list_news_forced:
  assumes "ru = None \<or> (\<exists>u. ru = Some u \<and> ru_role u \<notin> {Admin, Super_admin})"
    and "list_news text_search field_key ru errors p db = r" and "code r = 200"
  shows "\<exists>articles pg. payload r = ArticlePage articles pg
           \<and> list_all (\<lambda>d. n_status d = Published) articles
           \<and> totalItems pg = length (filter (\<lambda>d. n_status d = Published
                                 \<and> news_matches text_search (build_query ru p) d) db)"
proof -
  have f: "q_status (build_query ru p) = Some Published"
    using assms(1) by (intro build_query_forced) (auto split: option.splits)
  have e: "page_limit_errors p @ errors = []"
    using assms(2,3) by (auto simp: list_news_def validation_failed_def split: if_splits)
  have m: "news_matches text_search (build_query ru p) d \<Longrightarrow> n_status d = Published" for d
    using f by (simp add: news_matches_def)
  have "filter (\<lambda>d. n_status d = Published \<and> news_matches text_search (build_query ru p) d) db
          = filter (news_matches text_search (build_query ru p)) db"
    using m by (intro filter_cong) auto
  moreover have "list_all (\<lambda>d. n_status d = Published)
                   (find_page key order skip lim
                      (filter (news_matches text_search (build_query ru p)) db))"
    for key order skip lim
    using set_find_page[of key order skip lim
        "filter (news_matches text_search (build_query ru p)) db"] m
    by (auto simp: list_all_iff)
  ultimately show ?thesis
    using assms(2) e by (auto simp: list_news_def Let_def page_info_def)
qed

text \<open>
  Claim C4 for a super admin. The caller has admin privileges and asks for drafts; the
  filter is forced to \<open>published\<close> all the same, in both list routes, and the draft is
  neither returned nor counted.
\<close>
theorem super_admin_gets_published_only:
  "q_status (build_query (Some a_super_admin) drafts_wanted) = Some Published
   \<and> payload (list_news any_text news_key (Some a_super_admin) []
                drafts_wanted example_news)
       = ArticlePage [published_article]
           \<lparr>currentPage = 1, totalPages = 1, totalItems = 1, hasNextPage = False,
            hasPrevPage = False, page_limit = 10\<rparr>
   \<and> payload (list_videos any_text video_key (Some a_super_admin) []
                drafts_wanted example_videos)
       = VideoPage [example_video]
           \<lparr>currentPage = 1, totalPages = 1, totalItems = 1, hasNextPage = False,
            hasPrevPage = False, page_limit = 10\<rparr>"
  by (simp add: build_query_def a_super_admin_def drafts_wanted_def list_news_def
      list_videos_def page_limit_errors_def news_matches_def video_matches_def find_page_def
      page_info_def example_news_def example_videos_def draft_article_def
      published_article_def example_video_def draft_video_def news_key_def video_key_def
      Let_def)

text \<open>The same query from a caller whose role is \<open>admin\<close> selects the draft.\<close>
lemma admin_gets_drafts:
  "payload (list_news any_text news_key (Some an_admin) []
              drafts_wanted example_news)
     = ArticlePage [draft_article]
         \<lparr>currentPage = 1, totalPages = 1, totalItems = 1, hasNextPage = False,
          hasPrevPage = False, page_limit = 10\<rparr>"
  by (simp add: build_query_def an_admin_def drafts_wanted_def list_news_def
      page_limit_errors_def news_matches_def find_page_def page_info_def example_news_def
      draft_article_def published_article_def news_key_def Let_def)

section \<open>Requests that overlap\<close>

text \<open>A share request served without interruption is the handler \<open>share_news\<close>.\<close>
lemma run_alone_is_share_news:
  assumes "cast p = Some i"
  shows "run schema_valid now [0, 0] [Find_for_share i] db
           = ([Sent (fst (share_news cast schema_valid now p db))],
              snd (share_news cast schema_valid now p db))"
  using assms by (simp add: step_def share_news_def Let_def split: option.splits)

text \<open>An anonymous view served without interruption is the handler \<open>get_news\<close>.\<close>
lemma run_alone_is_get_news:
  "run schema_valid now [0, 0] [Find_for_view i] db
     = ([Sent (fst (get_news None None i db))], snd (get_news None None i db))"
proof (cases "findOne (\<lambda>d. news_id d = i) db")
  case None
  then show ?thesis by (simp add: step_def get_news_def)
next
  case (Some a)
  have "news_id a = i" using findOne_holds[OF Some] .
  with Some show ?thesis
    by (cases "n_status a") (simp_all add: step_def get_news_def Let_def)
qed

text \<open>Two share requests for one published article, interleaved read, read, write,
  write: in every store, the article's counter ends one above its old value.\<close>
lemma interleaved_shares:
  assumes "findOne (\<lambda>d. news_id d = i) db = Some a" and "n_status a = Published"
    and "n_shares a < 9007199254740992" and "schema_valid (a\<lparr>n_shares := n_shares a + 1\<rparr>)"
  shows "map_option n_shares
           (findOne (\<lambda>d. news_id d = i)
              (snd (run schema_valid now [0, 1, 0, 1] [Find_for_share i, Find_for_share i] db)))
         = Some (n_shares a + 1)"
proof -
  have i: "news_id a = i" using findOne_holds[OF assms(1)] .
  note n = number_add1_exact[OF assms(3)]
  let ?upd = "\<lambda>d. d\<lparr>n_shares := n_shares a + 1\<rparr>"
  have 1: "findOne (\<lambda>d. news_id d = i) (updateOne (\<lambda>d. news_id d = i) ?upd db) = Some (?upd a)"
    by (rule findOne_updateOne_same[OF assms(1)]) (simp add: i)
  have 2: "findOne (\<lambda>d. news_id d = i)
             (updateOne (\<lambda>d. news_id d = i) ?upd (updateOne (\<lambda>d. news_id d = i) ?upd db))
           = Some (?upd (?upd a))"
    by (rule findOne_updateOne_same[OF 1]) (simp add: i)
  have "snd (run schema_valid now [0, 1, 0, 1] [Find_for_share i, Find_for_share i] db)
          = updateOne (\<lambda>d. news_id d = i) ?upd (updateOne (\<lambda>d. news_id d = i) ?upd db)"
    using assms i
    by (simp add: step_def Let_def save_news_shares_def news_pre_save_unmodified n)
  then have "map_option n_shares
           (findOne (\<lambda>d. news_id d = i)
              (snd (run schema_valid now [0, 1, 0, 1] [Find_for_share i, Find_for_share i] db)))
         = map_option n_shares (Some (?upd (?upd a)))"
    by (simp only: 2)
  then show ?thesis by simp
qed

text \<open>Two views interleaved the same way are both counted: \<open>$inc\<close> adds to the counter
  the store holds.\<close>
lemma interleaved_views:
  assumes "findOne (\<lambda>d. news_id d = i) db = Some a" and "n_status a = Published"
  shows "map_option n_views
           (findOne (\<lambda>d. news_id d = i)
              (snd (run schema_valid now [0, 1, 0, 1] [Find_for_view i, Find_for_view i] db)))
         = Some (n_views a + 2)"
proof -
  have i: "news_id a = i" using findOne_holds[OF assms(1)] .
  let ?upd = "\<lambda>d. d\<lparr>n_views := n_views d + 1\<rparr>"
  have 1: "findOne (\<lambda>d. news_id d = i) (updateOne (\<lambda>d. news_id d = i) ?upd db) = Some (?upd a)"
    by (rule findOne_updateOne_same[OF assms(1)]) (simp add: i)
  have 2: "findOne (\<lambda>d. news_id d = i)
             (updateOne (\<lambda>d. news_id d = i) ?upd (updateOne (\<lambda>d. news_id d = i) ?upd db))
           = Some (?upd (?upd a))"
    by (rule findOne_updateOne_same[OF 1]) (simp add: i)
  have "snd (run schema_valid now [0, 1, 0, 1] [Find_for_view i, Find_for_view i] db)
          = updateOne (\<lambda>d. news_id d = i) ?upd (updateOne (\<lambda>d. news_id d = i) ?upd db)"
    using assms i by (simp add: step_def Let_def)
  then have "map_option n_views
           (findOne (\<lambda>d. news_id d = i)
              (snd (run schema_valid now [0, 1, 0, 1] [Find_for_view i, Find_for_view i] db)))
         = map_option n_views (Some (?upd (?upd a)))"
    by (simp only: 2)
  then show ?thesis by simp
qed

text \<open>
  Claim C9 for shares. Two share requests for the published article 8, whose counter is
  0, overlap: both read the article before either saves. Both are answered 200 with
  \<open>shares = 1\<close>, and the stored counter is 1, not 2.
\<close>
theorem overlapping_shares_lose_an_update:
  "fst (run accepting 100 [0, 1, 0, 1] [Find_for_share 8, Find_for_share 8] example_news)
     = [Sent (ok ''Share count updated'' (SharesData 1)),
        Sent (ok ''Share count updated'' (SharesData 1))]
   \<and> map n_shares
       (snd (run accepting 100 [0, 1, 0, 1] [Find_for_share 8, Find_for_share 8] example_news))
       = [0, 1]"
  by (simp add: step_def Let_def save_news_shares_def news_pre_save_unmodified findOne_def
      example_news_def draft_article_def published_article_def number_add1_def accepting_def)

end
